theory Spec2Isabelle
  imports Complex_Main "HOL-Library.Multiset"
begin

section \<open>Conventions of the embedding\<close>

text \<open>
  The Python sources under \<^verbatim>\<open>Ai_model/utils\<close> and \<^verbatim>\<open>Ai_model/models\<close> are embedded
  as HOL functions. A Python \<^verbatim>\<open>dict\<close> is an association list in insertion order with
  distinct keys; a raised exception is the \<open>Inl\<close> branch of a sum. Python floats are
  real numbers: rounding and overflow are outside the model. A float that may be NaN
  (a missing cell of a data frame, a mean over no values) is a \<open>pyfloat\<close>; the
  sentinel \<^verbatim>\<open>float('inf')\<close> is a constructor of \<open>sentinel_float\<close>. A private method
  keeps its name without the leading underscore.
\<close>

datatype pyerror =
    KeyError string
  | ValueError string
  | AttributeError string
  | TypeError
  | IndexError
  | LinAlgError

datatype pyfloat = Fl real | NaN

datatype sentinel_float = Finite real | PosInf

datatype pyval = PyNone | PyInt int | PyFloat pyfloat | PyStr string

text \<open>Arithmetic on floats that may be NaN: NaN propagates.\<close>

fun fl_add :: "pyfloat \<Rightarrow> pyfloat \<Rightarrow> pyfloat" where
  "fl_add (Fl x) (Fl y) = Fl (x + y)"
| "fl_add _ _ = NaN"

fun fl_sub :: "pyfloat \<Rightarrow> pyfloat \<Rightarrow> pyfloat" where
  "fl_sub (Fl x) (Fl y) = Fl (x - y)"
| "fl_sub _ _ = NaN"

fun fl_mul :: "pyfloat \<Rightarrow> pyfloat \<Rightarrow> pyfloat" where
  "fl_mul (Fl x) (Fl y) = Fl (x * y)"
| "fl_mul _ _ = NaN"

text \<open>The comparison \<^verbatim>\<open>x > 0\<close>, false for NaN, and \<^verbatim>\<open>x >= 0\<close>.\<close>

fun fl_gt0 :: "pyfloat \<Rightarrow> bool" where
  "fl_gt0 (Fl x) = (x > 0)"
| "fl_gt0 NaN = False"

fun fl_ge0 :: "pyfloat \<Rightarrow> bool" where
  "fl_ge0 (Fl x) = (x \<ge> 0)"
| "fl_ge0 NaN = False"

text \<open>
  \<^verbatim>\<open>max(0, x)\<close>: Python keeps the first argument unless the second compares greater,
  so a NaN gives 0.
\<close>

definition py_max0 :: "pyfloat \<Rightarrow> pyfloat" where
  "py_max0 x = (if fl_gt0 x then x else Fl 0)"

text \<open>The non-NaN values of a column, in order.\<close>

fun fl_values :: "pyfloat list \<Rightarrow> real list" where
  "fl_values [] = []"
| "fl_values (Fl x # xs) = x # fl_values xs"
| "fl_values (NaN # xs) = fl_values xs"

text \<open>\<^verbatim>\<open>np.mean\<close> of a list of floats: NaN (with a warning) on the empty list.\<close>

definition np_mean :: "real list \<Rightarrow> pyfloat" where
  "np_mean xs = (if xs = [] then NaN else Fl (sum_list xs / real (length xs)))"

text \<open>\<^verbatim>\<open>d.get(k, default)\<close>\<close>

definition py_get :: "('k \<times> 'v) list \<Rightarrow> 'k \<Rightarrow> 'v \<Rightarrow> 'v" where
  "py_get d k dflt = (case map_of d k of None \<Rightarrow> dflt | Some v \<Rightarrow> v)"

text \<open>\<^verbatim>\<open>d[k] = v\<close>: an existing key keeps its position, a new key goes to the end.\<close>

fun dict_set :: "('k \<times> 'v) list \<Rightarrow> 'k \<Rightarrow> 'v \<Rightarrow> ('k \<times> 'v) list" where
  "dict_set [] k v = [(k, v)]"
| "dict_set ((k', v') # d) k v = (if k' = k then (k, v) # d else (k', v') # dict_set d k v)"

section \<open>\<^verbatim>\<open>utils/data_processor.py\<close>: soil encoding\<close>

definition soil_types :: "string list" where
  "soil_types = [''sandy'', ''loamy'', ''clay'', ''silt'', ''sandy_loam'']"

text \<open>
  \<^verbatim>\<open>DataProcessor.process_soil_data(soil_data, farm_size)\<close>. The source has no
  \<^verbatim>\<open>raise\<close>: every input takes the \<open>Inr\<close> branch.
\<close>

definition process_soil_data ::
  "(string \<times> pyval) list \<Rightarrow> real \<Rightarrow> pyerror + (string \<times> pyval) list" where
  "process_soil_data soil_data farm_size =
     (let soil_type = py_get soil_data ''soil_type'' (PyStr ''loamy'');
          processed_data = [(''farm_size'', PyFloat (Fl farm_size))];
          processed_data =
            fold (\<lambda>st d. dict_set d (''soil_type_'' @ st)
                            (PyFloat (Fl (if soil_type = PyStr st then 1 else 0))))
                 soil_types processed_data;
          processed_data = dict_set processed_data ''soil_type'' soil_type
      in Inr processed_data)"

text \<open>The five one-hot entries of a processed soil dictionary, in category order.\<close>

definition soil_one_hot :: "(string \<times> pyval) list \<Rightarrow> pyval option list" where
  "soil_one_hot r = map (\<lambda>st. map_of r (''soil_type_'' @ st)) soil_types"

section \<open>\<^verbatim>\<open>utils/profit_calculator.py\<close>\<close>

record ProfitCalculator =
  cost_factors :: "(string \<times> real) list"
  risk_factors :: "(string \<times> real) list"
  price_weights :: "(string \<times> real) list"

text \<open>\<^verbatim>\<open>ProfitCalculator.__init__\<close>\<close>

definition ProfitCalculator_init :: ProfitCalculator where
  "ProfitCalculator_init =
     \<lparr> cost_factors =
         [(''seeds'', 1), (''fertilizer'', 1), (''irrigation'', 1), (''labor'', 1),
          (''equipment'', 1), (''storage'', 1), (''transport'', 1), (''insurance'', 1)],
       risk_factors =
         [(''weather_risk'', 0.1), (''market_risk'', 0.1), (''pest_risk'', 0.05),
          (''storage_risk'', 0.05)],
       price_weights =
         [(''historical_trend'', 0.3), (''seasonal_factor'', 0.2),
          (''market_sentiment'', 0.2), (''supply_demand'', 0.3)] \<rparr>"

text \<open>
  The generator \<^verbatim>\<open>sum(cost * self.cost_factors[factor] for factor, cost in
  input_costs.items())\<close>: the running sum starts at 0 and the first key that is not a
  cost factor raises \<^verbatim>\<open>KeyError\<close>.
\<close>

fun sum_costs :: "(string \<times> real) list \<Rightarrow> real \<Rightarrow> (string \<times> real) list \<Rightarrow> pyerror + real" where
  "sum_costs cf acc [] = Inr acc"
| "sum_costs cf acc ((factor, cost) # items) =
     (case map_of cf factor of
        None \<Rightarrow> Inl (KeyError factor)
      | Some f \<Rightarrow> sum_costs cf (acc + cost * f) items)"

definition calculate_production_cost ::
  "ProfitCalculator \<Rightarrow> string \<Rightarrow> real \<Rightarrow> (string \<times> real) list \<Rightarrow> pyerror + real" where
  "calculate_production_cost self crop_name area input_costs =
     (case sum_costs (cost_factors self) 0 input_costs of
        Inl e \<Rightarrow> Inl e
      | Inr base_cost \<Rightarrow> Inr (base_cost * area))"

definition estimate_yield :: "string \<Rightarrow> real \<Rightarrow> (string \<times> real) list \<Rightarrow> real" where
  "estimate_yield crop_name area conditions =
     (let base_yield = py_get conditions ''base_yield'' 0;
          weather_factor = py_get conditions ''weather_quality'' 1;
          soil_factor = py_get conditions ''soil_quality'' 1;
          management_factor = py_get conditions ''management_efficiency'' 1;
          modified_yield = base_yield * weather_factor * soil_factor * management_factor
      in modified_yield * area)"

definition calculate_revenue :: "string \<Rightarrow> real \<Rightarrow> real \<Rightarrow> real" where
  "calculate_revenue crop_name yield_amount market_price = yield_amount * market_price"

definition calculate_profit :: "real \<Rightarrow> real \<Rightarrow> real \<Rightarrow> real" where
  "calculate_profit revenue total_cost risk_factor =
     (let base_profit = revenue - total_cost;
          risk_adjusted_profit = base_profit * (1 - risk_factor)
      in risk_adjusted_profit)"

text \<open>
  \<^verbatim>\<open>analyze_profitability\<close> returns a dictionary with six keys, kept here in the
  order of the source's literal.
\<close>

definition analyze_profitability ::
  "ProfitCalculator \<Rightarrow> string \<Rightarrow> real \<Rightarrow> (string \<times> real) list \<Rightarrow> (string \<times> real) list \<Rightarrow>
     (string \<times> real) list \<Rightarrow> pyerror + (string \<times> real) list" where
  "analyze_profitability self crop_name area market_data conditions input_costs =
     (case calculate_production_cost self crop_name area input_costs of
        Inl e \<Rightarrow> Inl e
      | Inr total_cost \<Rightarrow>
          (let estimated_yield = estimate_yield crop_name area conditions;
               market_price = py_get market_data ''price_per_ton'' 0;
               revenue = calculate_revenue crop_name estimated_yield market_price;
               risk_factor = py_get market_data ''risk_factor'' 0.1;
               profit = calculate_profit revenue total_cost risk_factor
           in Inr [(''total_cost'', total_cost),
                   (''estimated_yield'', estimated_yield),
                   (''expected_revenue'', revenue),
                   (''projected_profit'', profit),
                   (''roi'', if total_cost > 0 then profit / total_cost else 0),
                   (''risk_factor'', risk_factor)]))"

definition calculate_break_even_price :: "real \<Rightarrow> real \<Rightarrow> sentinel_float" where
  "calculate_break_even_price total_cost estimated_yield =
     (if estimated_yield > 0 then Finite (total_cost / estimated_yield) else PosInf)"

subsection \<open>Price trend forecaster\<close>

text \<open>
  \<^verbatim>\<open>sum(score * weight for score, weight in market_indicators.items())\<close>: the loop
  variables are the key and the value of each entry, so the product is key times
  value. A numeric key multiplies; a string key raises \<^verbatim>\<open>TypeError\<close> (\<^verbatim>\<open>str * float\<close>
  is not defined, and the repeated string of \<^verbatim>\<open>str * int\<close> cannot be added to the
  running sum).
\<close>

fun key_times_weight :: "pyval \<Rightarrow> real \<Rightarrow> pyerror + pyfloat" where
  "key_times_weight (PyFloat x) weight = Inr (fl_mul x (Fl weight))"
| "key_times_weight (PyInt i) weight = Inr (Fl (real_of_int i * weight))"
| "key_times_weight (PyStr s) weight = Inl TypeError"
| "key_times_weight PyNone weight = Inl TypeError"

fun sentiment_sum :: "pyfloat \<Rightarrow> (pyval \<times> real) list \<Rightarrow> pyerror + pyfloat" where
  "sentiment_sum acc [] = Inr acc"
| "sentiment_sum acc ((score, weight) # items) =
     (case key_times_weight score weight of
        Inl e \<Rightarrow> Inl e
      | Inr p \<Rightarrow> sentiment_sum (fl_add acc p) items)"

text \<open>
  The \<^verbatim>\<open>for period in range(forecast_period)\<close> loop. Each round reads the three
  weights from \<^verbatim>\<open>self.price_weights\<close>, appends the clamped forecast and carries the
  unclamped one.
\<close>

fun forecast_loop ::
  "ProfitCalculator \<Rightarrow> pyfloat \<Rightarrow> pyfloat \<Rightarrow> pyfloat \<Rightarrow> pyfloat \<Rightarrow> nat \<Rightarrow> pyerror + pyfloat list" where
  "forecast_loop self historical_trend seasonal_component sentiment_score last_price 0 = Inr []"
| "forecast_loop self historical_trend seasonal_component sentiment_score last_price (Suc n) =
     (case map_of (price_weights self) ''historical_trend'' of
        None \<Rightarrow> Inl (KeyError ''historical_trend'')
      | Some w_trend \<Rightarrow>
     (case map_of (price_weights self) ''seasonal_factor'' of
        None \<Rightarrow> Inl (KeyError ''seasonal_factor'')
      | Some w_season \<Rightarrow>
     (case map_of (price_weights self) ''market_sentiment'' of
        None \<Rightarrow> Inl (KeyError ''market_sentiment'')
      | Some w_sentiment \<Rightarrow>
          (let forecast =
                 fl_add (fl_add (fl_add last_price (fl_mul historical_trend (Fl w_trend)))
                                (fl_mul seasonal_component (Fl w_season)))
                        (fl_mul sentiment_score (Fl w_sentiment))
           in case forecast_loop self historical_trend seasonal_component sentiment_score
                     forecast n of
                Inl e \<Rightarrow> Inl e
              | Inr forecasts \<Rightarrow> Inr (py_max0 forecast # forecasts)))))"

text \<open>
  \<^verbatim>\<open>ProfitCalculator.forecast_price_trend\<close>. The parameter \<open>polyfit\<close> stands for the
  library call \<^verbatim>\<open>np.polyfit(range(len(ys)), ys, 1)[0]\<close>, the slope of the degree-1
  least-squares fit, which may raise or give NaN on a degenerate series.
\<close>

definition forecast_price_trend ::
  "(real list \<Rightarrow> pyerror + pyfloat) \<Rightarrow> ProfitCalculator \<Rightarrow> real list \<Rightarrow> real list \<Rightarrow>
     (pyval \<times> real) list \<Rightarrow> int \<Rightarrow> pyerror + pyfloat list" where
  "forecast_price_trend polyfit self historical_prices seasonal_factors market_indicators
       forecast_period =
     (case polyfit historical_prices of
        Inl e \<Rightarrow> Inl e
      | Inr historical_trend \<Rightarrow>
          (let seasonal_component = np_mean seasonal_factors
           in case sentiment_sum (Fl 0) market_indicators of
                Inl e \<Rightarrow> Inl e
              | Inr sentiment_score \<Rightarrow>
                  (if historical_prices = [] then Inl IndexError
                   else forecast_loop self historical_trend seasonal_component
                          sentiment_score (Fl (last historical_prices))
                          (nat forecast_period))))"

text \<open>
  The closed form of the degree-1 least-squares slope over the abscissae
  \<open>0, 1, \<dots>, n - 1\<close>, and an instance of \<open>polyfit\<close>: that slope on a series of at
  least two points, \<^verbatim>\<open>LinAlgError\<close> on a single point (the fit of one point does not
  converge) and \<^verbatim>\<open>TypeError\<close> on the empty series.
\<close>

definition lstsq_slope :: "real list \<Rightarrow> real" where
  "lstsq_slope ys =
     (let n = real (length ys);
          xs = map real [0..<length ys];
          sx = sum_list xs;
          sy = sum_list ys;
          sxy = sum_list (map2 (*) xs ys);
          sxx = sum_list (map (\<lambda>x. x * x) xs)
      in (n * sxy - sx * sy) / (n * sxx - sx * sx))"

definition lstsq_polyfit :: "real list \<Rightarrow> pyerror + pyfloat" where
  "lstsq_polyfit ys =
     (if ys = [] then Inl TypeError
      else if length ys = 1 then Inl LinAlgError
      else Inr (Fl (lstsq_slope ys)))"

text \<open>The keys of \<^verbatim>\<open>market_indicators\<close> on which the product is defined.\<close>

fun numeric_key :: "pyval \<Rightarrow> bool" where
  "numeric_key (PyFloat x) = True"
| "numeric_key (PyInt i) = True"
| "numeric_key (PyStr s) = False"
| "numeric_key PyNone = False"

section \<open>\<^verbatim>\<open>utils/data_processor.py\<close>: feature builder\<close>

text \<open>
  A data frame is its columns by name, each a list of cells; NaN is a missing cell.
  \<^verbatim>\<open>df[name]\<close> raises \<^verbatim>\<open>KeyError\<close> on an absent column, and \<^verbatim>\<open>Series.mean()\<close> skips
  the missing cells.
\<close>

type_synonym dataframe = "(string \<times> pyfloat list) list"

definition df_column :: "dataframe \<Rightarrow> string \<Rightarrow> pyerror + pyfloat list" where
  "df_column df name = (case map_of df name of None \<Rightarrow> Inl (KeyError name) | Some c \<Rightarrow> Inr c)"

definition series_mean :: "pyfloat list \<Rightarrow> pyfloat" where
  "series_mean col = np_mean (fl_values col)"

subsection \<open>Cleaning of the weather observations\<close>

text \<open>
  \<^verbatim>\<open>pd.DataFrame(weather_data)\<close> on a dictionary of columns: the columns must have
  one length.
\<close>

definition make_dataframe :: "dataframe \<Rightarrow> pyerror + dataframe" where
  "make_dataframe d =
     (case d of
        [] \<Rightarrow> Inr []
      | (name, col) # rest \<Rightarrow>
          (if list_all (\<lambda>(name', col'). length col' = length col) rest then Inr d
           else Inl (ValueError ''All arrays must be of the same length'')))"

text \<open>
  \<^verbatim>\<open>df.fillna(values)\<close> with a dictionary of fill values by column: in a column that
  has a fill value every missing cell takes it, the other columns are left as they
  are, and a fill value for a column that the frame does not have is ignored.
\<close>

definition fillna_column :: "pyfloat \<Rightarrow> pyfloat list \<Rightarrow> pyfloat list" where
  "fillna_column v col = map (\<lambda>c. case c of NaN \<Rightarrow> v | Fl x \<Rightarrow> Fl x) col"

definition df_fillna :: "(string \<times> pyfloat) list \<Rightarrow> dataframe \<Rightarrow> dataframe" where
  "df_fillna fills df =
     map (\<lambda>(name, col). case map_of fills name of
                           None \<Rightarrow> (name, col)
                         | Some v \<Rightarrow> (name, fillna_column v col))
         df"

text \<open>
  The step "Handle missing values" of \<^verbatim>\<open>clean_weather_data\<close>: the fill values are
  computed first, and \<^verbatim>\<open>df['temperature']\<close> and \<^verbatim>\<open>df['humidity']\<close> raise on a frame
  without the column.
\<close>

definition fill_missing_weather :: "dataframe \<Rightarrow> pyerror + dataframe" where
  "fill_missing_weather df =
     (case df_column df ''temperature'' of
        Inl e \<Rightarrow> Inl e
      | Inr temperature \<Rightarrow>
     (case df_column df ''humidity'' of
        Inl e \<Rightarrow> Inl e
      | Inr humidity \<Rightarrow>
          Inr (df_fillna
                 [(''temperature'', series_mean temperature),
                  (''humidity'', series_mean humidity),
                  (''rainfall'', Fl 0),
                  (''wind_speed'',
                     case map_of df ''wind_speed'' of
                       Some c \<Rightarrow> series_mean c | None \<Rightarrow> Fl 0),
                  (''soil_moisture'',
                     case map_of df ''soil_moisture'' of
                       Some c \<Rightarrow> series_mean c | None \<Rightarrow> Fl 0)]
                 df)))"

text \<open>
  \<^verbatim>\<open>Series.std()\<close>: the sample standard deviation of the cells that are present, NaN
  when fewer than two are.
\<close>

definition series_std :: "pyfloat list \<Rightarrow> pyfloat" where
  "series_std col =
     (let vs = fl_values col; n = length vs
      in if n < 2 then NaN
         else (let m = sum_list vs / real n
               in Fl (sqrt (sum_list (map (\<lambda>v. (v - m) * (v - m)) vs) / real (n - 1)))))"

text \<open>
  The mask \<^verbatim>\<open>np.abs(df[column] - mean) <= 3 * std\<close>, false wherever a NaN takes part,
  and the selection \<^verbatim>\<open>df[mask]\<close> of the rows where it is true.
\<close>

fun within_3_std :: "pyfloat \<Rightarrow> pyfloat \<Rightarrow> pyfloat \<Rightarrow> bool" where
  "within_3_std (Fl m) (Fl sd) (Fl x) = (\<bar>x - m\<bar> \<le> 3 * sd)"
| "within_3_std _ _ _ = False"

definition df_select_rows :: "bool list \<Rightarrow> dataframe \<Rightarrow> dataframe" where
  "df_select_rows keep df =
     map (\<lambda>(name, col). (name, map fst (filter snd (zip col keep)))) df"

text \<open>The loop "Remove outliers": each column filters the frame left by the one before.\<close>

fun remove_outliers :: "string list \<Rightarrow> dataframe \<Rightarrow> dataframe" where
  "remove_outliers [] df = df"
| "remove_outliers (column # columns) df =
     (case map_of df column of
        None \<Rightarrow> remove_outliers columns df
      | Some col \<Rightarrow>
          (let mean = series_mean col;
               std = series_std col
           in remove_outliers columns
                (df_select_rows (map (within_3_std mean std) col) df)))"

text \<open>\<^verbatim>\<open>DataProcessor._calculate_heat_index\<close>, cell by cell.\<close>

fun heat_index_cell :: "pyfloat \<Rightarrow> pyfloat \<Rightarrow> pyfloat" where
  "heat_index_cell (Fl temperature) (Fl humidity) =
     (let temp_f = temperature * 9 / 5 + 32;
          hi = 0.5 * (temp_f + 61.0 + ((temp_f - 68.0) * 1.2) + (humidity * 0.094))
      in Fl ((hi - 32) * 5 / 9))"
| "heat_index_cell _ _ = NaN"

definition calculate_heat_index :: "pyfloat list \<Rightarrow> pyfloat list \<Rightarrow> pyfloat list" where
  "calculate_heat_index temperature humidity = map2 heat_index_cell temperature humidity"

text \<open>\<^verbatim>\<open>DataProcessor.clean_weather_data\<close>\<close>

definition clean_weather_data :: "dataframe \<Rightarrow> pyerror + dataframe" where
  "clean_weather_data weather_data =
     (case make_dataframe weather_data of
        Inl e \<Rightarrow> Inl e
      | Inr df \<Rightarrow>
     (case fill_missing_weather df of
        Inl e \<Rightarrow> Inl e
      | Inr df \<Rightarrow>
          (let df = remove_outliers
                      [''temperature'', ''humidity'', ''rainfall'', ''wind_speed'',
                       ''soil_moisture'']
                      df
           in case map_of df ''temperature'' of
                None \<Rightarrow> Inr df
              | Some temperature \<Rightarrow>
                  (case map_of df ''humidity'' of
                     None \<Rightarrow> Inr df
                   | Some humidity \<Rightarrow>
                       Inr (dict_set df ''heat_index''
                              (calculate_heat_index temperature humidity))))))"

subsection \<open>Feature vectors\<close>

text \<open>The dictionary \<^verbatim>\<open>weather_features\<close> of \<^verbatim>\<open>prepare_prediction_features\<close>.\<close>

definition weather_features :: "dataframe \<Rightarrow> pyerror + (string \<times> pyfloat) list" where
  "weather_features weather_data =
     (case df_column weather_data ''temperature'' of
        Inl e \<Rightarrow> Inl e
      | Inr temperature \<Rightarrow>
     (case df_column weather_data ''humidity'' of
        Inl e \<Rightarrow> Inl e
      | Inr humidity \<Rightarrow>
     (case df_column weather_data ''rainfall'' of
        Inl e \<Rightarrow> Inl e
      | Inr rainfall \<Rightarrow>
          Inr [(''temperature'', series_mean temperature),
               (''humidity'', series_mean humidity),
               (''rainfall'', series_mean rainfall),
               (''heat_index'',
                  case map_of weather_data ''heat_index'' of
                    Some c \<Rightarrow> series_mean c | None \<Rightarrow> Fl 0),
               (''soil_moisture'',
                  case map_of weather_data ''soil_moisture'' of
                    Some c \<Rightarrow> series_mean c | None \<Rightarrow> Fl 0)])))"

text \<open>
  The market dictionary holds numbers and, under \<^verbatim>\<open>'price_history'\<close>, a list of
  prices. \<^verbatim>\<open>float(market_data.get(k, 0))\<close> raises \<^verbatim>\<open>TypeError\<close> on a list.
\<close>

datatype mval = MNum real | MList "real list"

definition market_float :: "(string \<times> mval) list \<Rightarrow> string \<Rightarrow> pyerror + real" where
  "market_float market_data k =
     (case map_of market_data k of
        None \<Rightarrow> Inr 0
      | Some (MNum x) \<Rightarrow> Inr x
      | Some (MList xs) \<Rightarrow> Inl TypeError)"

fun fl_tanh :: "pyfloat \<Rightarrow> pyfloat" where
  "fl_tanh (Fl x) = Fl (tanh x)"
| "fl_tanh NaN = NaN"

text \<open>\<^verbatim>\<open>DataProcessor._calculate_market_trend\<close>; \<^verbatim>\<open>len\<close> of a number raises.\<close>

definition calculate_market_trend ::
  "(real list \<Rightarrow> pyerror + pyfloat) \<Rightarrow> (string \<times> mval) list \<Rightarrow> pyerror + pyfloat" where
  "calculate_market_trend polyfit market_data =
     (case map_of market_data ''price_history'' of
        None \<Rightarrow> Inr (Fl 0)
      | Some (MNum x) \<Rightarrow> Inl TypeError
      | Some (MList prices) \<Rightarrow>
          (if length prices < 2 then Inr (Fl 0)
           else case polyfit prices of
                  Inl e \<Rightarrow> Inl e
                | Inr slope \<Rightarrow> Inr (fl_tanh slope)))"

text \<open>A reading of the clock, \<^verbatim>\<open>datetime.now()\<close>.\<close>

record datetime =
  dt_year :: int
  dt_month :: nat
  dt_day :: nat

text \<open>\<^verbatim>\<open>DataProcessor._get_seasonal_factor\<close>\<close>

definition get_seasonal_factor :: "datetime \<Rightarrow> real" where
  "get_seasonal_factor date = sin (2 * pi * (real (dt_month date) / 12))"

text \<open>
  The dictionary \<^verbatim>\<open>market_features\<close>; \<open>now\<close> is what \<^verbatim>\<open>datetime.now()\<close> returns during
  the call.
\<close>

definition market_features ::
  "(real list \<Rightarrow> pyerror + pyfloat) \<Rightarrow> datetime \<Rightarrow> (string \<times> mval) list \<Rightarrow>
     pyerror + (string \<times> pyfloat) list" where
  "market_features polyfit now market_data =
     (case market_float market_data ''current_price'' of
        Inl e \<Rightarrow> Inl e
      | Inr current_price \<Rightarrow>
     (case market_float market_data ''demand_index'' of
        Inl e \<Rightarrow> Inl e
      | Inr demand_index \<Rightarrow>
     (case market_float market_data ''supply_index'' of
        Inl e \<Rightarrow> Inl e
      | Inr supply_index \<Rightarrow>
     (case calculate_market_trend polyfit market_data of
        Inl e \<Rightarrow> Inl e
      | Inr market_trend \<Rightarrow>
          Inr [(''current_price'', Fl current_price),
               (''demand_index'', Fl demand_index),
               (''supply_index'', Fl supply_index),
               (''market_trend'', market_trend),
               (''seasonal_factor'', Fl (get_seasonal_factor now))]))))"

text \<open>
  The mean as the specification words it, to compare the aggregation with: the sum of
  the cells of a column that are present, divided by their number.
\<close>

definition present_values :: "pyfloat list \<Rightarrow> real list" where
  "present_values col = [x. Fl x \<leftarrow> col]"


subsection \<open>Price features\<close>

text \<open>
  \<^verbatim>\<open>Series.rolling(w)\<close>: the window that ends at row \<open>i\<close>, present only from row
  \<open>w - 1\<close> on and only when none of its cells is missing.
\<close>

definition window_at :: "nat \<Rightarrow> pyfloat list \<Rightarrow> nat \<Rightarrow> real list option" where
  "window_at w xs i =
     (if i + 1 < w then None
      else (let win = take w (drop (i + 1 - w) xs)
            in if NaN \<in> set win then None else Some (fl_values win)))"

definition rolling_mean :: "nat \<Rightarrow> pyfloat list \<Rightarrow> pyfloat list" where
  "rolling_mean w xs =
     map (\<lambda>i. case window_at w xs i of
                 None \<Rightarrow> NaN
               | Some vs \<Rightarrow> Fl (sum_list vs / real w))
         [0..<length xs]"

text \<open>The sample standard deviation (one degree of freedom removed) of each window.\<close>

definition rolling_std :: "nat \<Rightarrow> pyfloat list \<Rightarrow> pyfloat list" where
  "rolling_std w xs =
     map (\<lambda>i. case window_at w xs i of
                 None \<Rightarrow> NaN
               | Some vs \<Rightarrow>
                   (if w < 2 then NaN
                    else (let m = sum_list vs / real w
                          in Fl (sqrt (sum_list (map (\<lambda>v. (v - m) * (v - m)) vs) / real (w - 1))))))
         [0..<length xs]"

text \<open>\<^verbatim>\<open>fillna(method='bfill')\<close>: a missing cell takes the next present value.\<close>

fun bfill :: "pyfloat list \<Rightarrow> pyfloat list" where
  "bfill [] = []"
| "bfill (Fl x # xs) = Fl x # bfill xs"
| "bfill (NaN # xs) = (case bfill xs of [] \<Rightarrow> [NaN] | y # ys \<Rightarrow> y # y # ys)"

text \<open>\<^verbatim>\<open>np.roll(xs, k)\<close>: the cell at \<open>i\<close> comes from \<open>i - k\<close>, cyclically.\<close>

definition np_roll :: "nat \<Rightarrow> 'a list \<Rightarrow> 'a list" where
  "np_roll k xs =
     (let n = length xs in map (\<lambda>i. xs ! ((i + (n - k mod n)) mod n)) [0..<n])"

text \<open>\<^verbatim>\<open>DataProcessor._prepare_price_features\<close>: one row of seven features per price.\<close>

definition prepare_price_features ::
  "dataframe \<Rightarrow> (string \<times> pyfloat) list \<Rightarrow> pyerror + pyfloat list list" where
  "prepare_price_features historical_prices market_features' =
     (case df_column historical_prices ''price'' of
        Inl e \<Rightarrow> Inl e
      | Inr prices \<Rightarrow>
          (let ma_7 = bfill (rolling_mean 7 prices);
               ma_30 = bfill (rolling_mean 30 prices);
               momentum = map2 fl_sub prices (np_roll 7 prices);
               momentum = replicate (min 7 (length momentum)) (Fl 0) @ drop 7 momentum;
               volatility = bfill (rolling_std 14 prices)
           in case map_of market_features' ''demand_index'' of
                None \<Rightarrow> Inl (KeyError ''demand_index'')
              | Some demand_index \<Rightarrow>
            (case map_of market_features' ''supply_index'' of
                None \<Rightarrow> Inl (KeyError ''supply_index'')
              | Some supply_index \<Rightarrow>
                  Inr (map (\<lambda>i. [prices ! i, ma_7 ! i, ma_30 ! i, momentum ! i, volatility ! i,
                                  demand_index, supply_index])
                           [0..<length prices]))))"

text \<open>\<^verbatim>\<open>{**a, **b}\<close>: the entries of \<open>b\<close> are stored into \<open>a\<close> in order.\<close>

definition dict_update :: "('k \<times> 'v) list \<Rightarrow> ('k \<times> 'v) list \<Rightarrow> ('k \<times> 'v) list" where
  "dict_update a b = fold (\<lambda>(k, v) d. dict_set d k v) b a"

definition as_pyval :: "(string \<times> pyfloat) list \<Rightarrow> (string \<times> pyval) list" where
  "as_pyval d = map (\<lambda>(k, v). (k, PyFloat v)) d"

text \<open>
  \<^verbatim>\<open>DataProcessor.prepare_prediction_features\<close>. The result is the pair of the values
  under \<^verbatim>\<open>'crop_features'\<close> (the single row of the values of the merged dictionary, in
  its order) and \<^verbatim>\<open>'price_features'\<close> (\<open>None\<close> without historical prices). The clock
  reading \<open>now\<close> is an input of the model because the source calls \<^verbatim>\<open>datetime.now()\<close>.
\<close>

definition prepare_prediction_features ::
  "(real list \<Rightarrow> pyerror + pyfloat) \<Rightarrow> datetime \<Rightarrow> dataframe \<Rightarrow> (string \<times> pyval) list \<Rightarrow>
     (string \<times> mval) list \<Rightarrow> dataframe option \<Rightarrow>
     pyerror + (pyval list \<times> pyfloat list list option)" where
  "prepare_prediction_features polyfit now weather_data soil_data market_data historical_prices =
     (case weather_features weather_data of
        Inl e \<Rightarrow> Inl e
      | Inr weather_features' \<Rightarrow>
     (case market_features polyfit now market_data of
        Inl e \<Rightarrow> Inl e
      | Inr market_features' \<Rightarrow>
          (let crop_features =
                 dict_update (dict_update (as_pyval weather_features') soil_data)
                             (as_pyval market_features')
           in case historical_prices of
                None \<Rightarrow> Inr (map snd crop_features, None)
              | Some hp \<Rightarrow>
                  (case prepare_price_features hp market_features' of
                     Inl e \<Rightarrow> Inl e
                   | Inr price_features \<Rightarrow> Inr (map snd crop_features, Some price_features)))))"

section \<open>\<^verbatim>\<open>models/crop_prediction_model.py\<close>\<close>

text \<open>
  The estimators and scalers of scikit-learn are outside the repository. Their objects
  are values of the type parameters \<open>'clf\<close>, \<open>'reg\<close> and \<open>'sc\<close>, and their methods are
  the fields of a record that every function below takes as its first argument. An
  array handed to a scaler may have one or two dimensions; what a scaler and an
  estimator return has two.
\<close>

type_synonym matrix = "real list list"

datatype ndarray = Arr1 "real list" | Arr2 matrix

record ('clf, 'reg, 'sc) sklearn =
  sk_new_classifier :: 'clf
  sk_new_regressor :: 'reg
  sk_new_scaler :: 'sc
  sk_fit_transform :: "'sc \<Rightarrow> ndarray \<Rightarrow> pyerror + ('sc \<times> matrix)"
  sk_transform :: "'sc \<Rightarrow> ndarray \<Rightarrow> pyerror + matrix"
  sk_inverse_transform :: "'sc \<Rightarrow> ndarray \<Rightarrow> pyerror + matrix"
  sk_classifier_fit :: "'clf \<Rightarrow> matrix \<Rightarrow> string list \<Rightarrow> pyerror + 'clf"
  sk_predict_proba :: "'clf \<Rightarrow> matrix \<Rightarrow> pyerror + matrix"
  sk_classes :: "'clf \<Rightarrow> string list"
  sk_regressor_fit :: "'reg \<Rightarrow> matrix \<Rightarrow> real list \<Rightarrow> pyerror + 'reg"
  sk_predict :: "'reg \<Rightarrow> matrix \<Rightarrow> pyerror + real list"
  sk_score :: "'reg \<Rightarrow> matrix \<Rightarrow> real list \<Rightarrow> pyerror + real"
  sk_argsort :: "real list \<Rightarrow> nat list"

text \<open>
  The fields of \<^verbatim>\<open>CropPredictionModel\<close> that the prediction and training methods read
  and write.
\<close>

record ('clf, 'reg, 'sc) CropPredictionModel =
  profit_calculator :: ProfitCalculator
  crop_model :: 'clf
  price_models :: "(string \<times> 'reg) list"
  crop_scaler :: 'sc
  price_scalers :: "(string \<times> 'sc) list"
  is_crop_model_trained :: bool
  trained_crops :: "string set"

text \<open>\<^verbatim>\<open>CropPredictionModel.__init__\<close>\<close>

definition CropPredictionModel_init ::
  "('clf, 'reg, 'sc) sklearn \<Rightarrow> ('clf, 'reg, 'sc) CropPredictionModel" where
  "CropPredictionModel_init sk =
     \<lparr> profit_calculator = ProfitCalculator_init,
       crop_model = sk_new_classifier sk,
       price_models = [],
       crop_scaler = sk_new_scaler sk,
       price_scalers = [],
       is_crop_model_trained = False,
       trained_crops = {} \<rparr>"

definition preprocess_crop_data ::
  "('clf, 'reg, 'sc) sklearn \<Rightarrow> ('clf, 'reg, 'sc) CropPredictionModel \<Rightarrow> ndarray \<Rightarrow>
     pyerror + matrix" where
  "preprocess_crop_data sk self data = sk_transform sk (crop_scaler self) data"

definition preprocess_price_data ::
  "('clf, 'reg, 'sc) sklearn \<Rightarrow> ('clf, 'reg, 'sc) CropPredictionModel \<Rightarrow> ndarray \<Rightarrow> string \<Rightarrow>
     pyerror + matrix" where
  "preprocess_price_data sk self data crop =
     (case map_of (price_scalers self) crop of
        None \<Rightarrow> Inl (ValueError (''No price model trained for crop: '' @ crop))
      | Some scaler \<Rightarrow> sk_transform sk scaler data)"

text \<open>
  The training methods return the exception, if any, and the model after the call.
  A fit that raises is taken to leave its object as it was.
\<close>

definition train_crop_model ::
  "('clf, 'reg, 'sc) sklearn \<Rightarrow> ('clf, 'reg, 'sc) CropPredictionModel \<Rightarrow> ndarray \<Rightarrow> string list \<Rightarrow>
     pyerror option \<times> ('clf, 'reg, 'sc) CropPredictionModel" where
  "train_crop_model sk self X y =
     (case sk_fit_transform sk (crop_scaler self) X of
        Inl e \<Rightarrow> (Some e, self)
      | Inr (scaler, X_scaled) \<Rightarrow>
          (let self = self\<lparr>crop_scaler := scaler\<rparr>
           in case sk_classifier_fit sk (crop_model self) X_scaled y of
                Inl e \<Rightarrow> (Some e, self)
              | Inr model \<Rightarrow>
                  (None, self\<lparr>crop_model := model, is_crop_model_trained := True\<rparr>)))"

definition train_price_model ::
  "('clf, 'reg, 'sc) sklearn \<Rightarrow> ('clf, 'reg, 'sc) CropPredictionModel \<Rightarrow> ndarray \<Rightarrow> real list \<Rightarrow>
     string \<Rightarrow> pyerror option \<times> ('clf, 'reg, 'sc) CropPredictionModel" where
  "train_price_model sk self X y crop =
     (let self =
            (if map_of (price_models self) crop = None
             then self\<lparr>price_models := dict_set (price_models self) crop (sk_new_regressor sk),
                       price_scalers := dict_set (price_scalers self) crop (sk_new_scaler sk)\<rparr>
             else self)
      in case map_of (price_scalers self) crop of
           None \<Rightarrow> (Some (KeyError crop), self)
         | Some scaler \<Rightarrow>
       (case sk_fit_transform sk scaler X of
           Inl e \<Rightarrow> (Some e, self)
         | Inr (scaler', X_scaled) \<Rightarrow>
             (let self = self\<lparr>price_scalers := dict_set (price_scalers self) crop scaler'\<rparr>
              in case map_of (price_models self) crop of
                   None \<Rightarrow> (Some (KeyError crop), self)
                 | Some model \<Rightarrow>
               (case sk_regressor_fit sk model X_scaled y of
                   Inl e \<Rightarrow> (Some e, self)
                 | Inr model' \<Rightarrow>
                     (None, self\<lparr>price_models := dict_set (price_models self) crop model',
                                  trained_crops := insert crop (trained_crops self)\<rparr>)))))"

text \<open>The slice \<^verbatim>\<open>xs[-n:]\<close> for an integer \<open>n\<close>, and \<^verbatim>\<open>[xs[i] for i in indices]\<close>.\<close>

definition slice_from_minus :: "int \<Rightarrow> 'a list \<Rightarrow> 'a list" where
  "slice_from_minus n xs =
     (if n > 0 then drop (length xs - nat n) xs else drop (nat (- n)) xs)"

fun index_all :: "'a list \<Rightarrow> nat list \<Rightarrow> pyerror + 'a list" where
  "index_all xs [] = Inr []"
| "index_all xs (i # indices) =
     (if i < length xs
      then (case index_all xs indices of Inl e \<Rightarrow> Inl e | Inr ys \<Rightarrow> Inr (xs ! i # ys))
      else Inl IndexError)"

text \<open>\<^verbatim>\<open>CropPredictionModel.predict_best_crops\<close>\<close>

definition predict_best_crops ::
  "('clf, 'reg, 'sc) sklearn \<Rightarrow> ('clf, 'reg, 'sc) CropPredictionModel \<Rightarrow> ndarray \<Rightarrow> int \<Rightarrow>
     pyerror + string list" where
  "predict_best_crops sk self features n_recommendations =
     (if \<not> is_crop_model_trained self
      then Inl (ValueError ''Crop model must be trained before making predictions'')
      else case preprocess_crop_data sk self features of
             Inl e \<Rightarrow> Inl e
           | Inr X_scaled \<Rightarrow>
         (case sk_predict_proba sk (crop_model self) X_scaled of
             Inl e \<Rightarrow> Inl e
           | Inr crop_probabilities \<Rightarrow>
               (case crop_probabilities of
                  [] \<Rightarrow> Inl IndexError
                | row # _ \<Rightarrow>
                    (let top_indices = rev (slice_from_minus n_recommendations (sk_argsort sk row))
                     in index_all (sk_classes sk (crop_model self)) top_indices))))"

text \<open>
  The loop of \<^verbatim>\<open>predict_future_price\<close>: predict on the array flattened to one row,
  then overwrite the last row of the array with the predicted price.
\<close>

fun future_price_loop ::
  "('clf, 'reg, 'sc) sklearn \<Rightarrow> (string \<times> 'reg) list \<Rightarrow> string \<Rightarrow> matrix \<Rightarrow> nat \<Rightarrow>
     pyerror + real list" where
  "future_price_loop sk models crop current_features 0 = Inr []"
| "future_price_loop sk models crop current_features (Suc n) =
     (case map_of models crop of
        None \<Rightarrow> Inl (KeyError crop)
      | Some model \<Rightarrow>
     (case sk_predict sk model [concat current_features] of
        Inl e \<Rightarrow> Inl e
      | Inr [] \<Rightarrow> Inl IndexError
      | Inr (price # _) \<Rightarrow>
          (if current_features = [] then Inl IndexError
           else (let current_features =
                       butlast current_features @
                         [replicate (length (last current_features)) price]
                 in case future_price_loop sk models crop current_features n of
                      Inl e \<Rightarrow> Inl e
                    | Inr future_prices \<Rightarrow> Inr (price # future_prices)))))"

text \<open>The column \<^verbatim>\<open>a[:, -1]\<close> of a two-dimensional array.\<close>

definition last_column :: "matrix \<Rightarrow> pyerror + real list" where
  "last_column a = (if [] \<in> set a then Inl IndexError else Inr (map last a))"

text \<open>\<^verbatim>\<open>CropPredictionModel.predict_future_price\<close>\<close>

definition predict_future_price ::
  "('clf, 'reg, 'sc) sklearn \<Rightarrow> ('clf, 'reg, 'sc) CropPredictionModel \<Rightarrow> ndarray \<Rightarrow> string \<Rightarrow>
     int \<Rightarrow> pyerror + (real list \<times> real)" where
  "predict_future_price sk self features crop forecast_periods =
     (if crop \<notin> trained_crops self
      then Inl (ValueError (''No price model trained for crop: '' @ crop))
      else case preprocess_price_data sk self features crop of
             Inl e \<Rightarrow> Inl e
           | Inr X_scaled \<Rightarrow>
         (case future_price_loop sk (price_models self) crop X_scaled (nat forecast_periods) of
             Inl e \<Rightarrow> Inl e
           | Inr future_prices \<Rightarrow>
         (case map_of (price_models self) crop of
             None \<Rightarrow> Inl (KeyError crop)
           | Some model \<Rightarrow>
         (case map_of (price_scalers self) crop of
             None \<Rightarrow> Inl (KeyError crop)
           | Some scaler \<Rightarrow>
         (case sk_inverse_transform sk scaler features of
             Inl e \<Rightarrow> Inl e
           | Inr original \<Rightarrow>
         (case last_column original of
             Inl e \<Rightarrow> Inl e
           | Inr y_true \<Rightarrow>
         (case sk_score sk model X_scaled y_true of
             Inl e \<Rightarrow> Inl e
           | Inr confidence \<Rightarrow> Inr (future_prices, confidence))))))))"

subsection \<open>Prediction orchestrator\<close>

text \<open>
  \<^verbatim>\<open>get_weather_data\<close> and \<^verbatim>\<open>get_market_analysis\<close> read the network, files, a cache
  and the clock: they are parameters, a weather lookup by city and a market lookup by
  state, district and commodity whose empty dictionary means no data. The dictionaries
  they return are kept to their numeric entries.
\<close>

record environment =
  env_get_weather_data :: "string \<Rightarrow> pyerror + (string \<times> real) list"
  env_get_market_analysis :: "string \<Rightarrow> string \<Rightarrow> string \<Rightarrow> pyerror + (string \<times> real) list"

text \<open>
  The orchestrator calls \<^verbatim>\<open>self.data_processor.combine_features(weather_data,
  market_analysis)\<close>, and \<^verbatim>\<open>DataProcessor\<close> defines no attribute of that name: the
  attribute lookup raises \<^verbatim>\<open>AttributeError\<close>, whatever the arguments. The error carries
  the name of the attribute.
\<close>

definition combine_features ::
  "(string \<times> real) list \<Rightarrow> (string \<times> real) list \<Rightarrow> pyerror + real list" where
  "combine_features weather_data market_analysis = Inl (AttributeError ''combine_features'')"

text \<open>One entry of \<^verbatim>\<open>results['crop_analysis']\<close>.\<close>

record crop_analysis =
  ca_crop :: string
  ca_suitability_score :: "real option"
  ca_market_analysis :: "(string \<times> real) list"
  ca_future_prices :: "real list option"
  ca_confidence :: "real option"
  ca_profit_analysis :: "(string \<times> real) list"

text \<open>\<^verbatim>\<open>float(max(row))\<close>: \<^verbatim>\<open>max\<close> raises on an empty sequence.\<close>

fun py_max :: "real list \<Rightarrow> pyerror + real" where
  "py_max [] = Inl (ValueError ''max() arg is an empty sequence'')"
| "py_max (x # xs) = Inr (fold max xs x)"

text \<open>
  \<^verbatim>\<open>processed_soil.get('texture_score', 0.8)\<close>. Only a number can reach the yield
  product; \<^verbatim>\<open>process_soil_data\<close> never stores this key.
\<close>

definition soil_quality_of :: "(string \<times> pyval) list \<Rightarrow> pyerror + real" where
  "soil_quality_of processed_soil =
     (case map_of processed_soil ''texture_score'' of
        None \<Rightarrow> Inr 0.8
      | Some (PyFloat (Fl x)) \<Rightarrow> Inr x
      | Some (PyInt i) \<Rightarrow> Inr (real_of_int i)
      | Some _ \<Rightarrow> Inl TypeError)"

text \<open>
  The body of the loop over \<^verbatim>\<open>crops\<close> for a crop whose market analysis is not empty.
\<close>

definition analyze_crop ::
  "('clf, 'reg, 'sc) sklearn \<Rightarrow> ('clf, 'reg, 'sc) CropPredictionModel \<Rightarrow>
     (string \<times> real) list \<Rightarrow> real \<Rightarrow> string \<Rightarrow> string \<Rightarrow> (string \<times> real) list \<Rightarrow>
     pyerror + crop_analysis" where
  "analyze_crop sk self weather_data farm_size soil_type crop market_analysis =
     (case combine_features weather_data market_analysis of
        Inl e \<Rightarrow> Inl e
      | Inr features \<Rightarrow>
     (case (if is_crop_model_trained self
            then (case preprocess_crop_data sk self (Arr2 [features]) of
                    Inl e \<Rightarrow> Inl e
                  | Inr X_scaled \<Rightarrow>
                (case sk_predict_proba sk (crop_model self) X_scaled of
                    Inl e \<Rightarrow> Inl e
                  | Inr [] \<Rightarrow> Inl IndexError
                  | Inr (row # _) \<Rightarrow> Inr (Some row)))
            else Inr None) of
        Inl e \<Rightarrow> Inl e
      | Inr suitability_score \<Rightarrow>
     (case (if crop \<in> trained_crops self
            then (case predict_future_price sk self (Arr1 features) crop 12 of
                    Inl e \<Rightarrow> Inl e
                  | Inr (future_prices, confidence) \<Rightarrow>
                      Inr (Some future_prices, Some confidence))
            else Inr (None, None)) of
        Inl e \<Rightarrow> Inl e
      | Inr (future_prices, confidence) \<Rightarrow>
     (case process_soil_data [(''soil_type'', PyStr soil_type)] farm_size of
        Inl e \<Rightarrow> Inl e
      | Inr processed_soil \<Rightarrow>
     (case soil_quality_of processed_soil of
        Inl e \<Rightarrow> Inl e
      | Inr soil_quality \<Rightarrow>
     (case map_of market_analysis ''current_price'' of
        None \<Rightarrow> Inl (KeyError ''current_price'')
      | Some current_price \<Rightarrow>
     (case analyze_profitability (profit_calculator self) crop farm_size
             [(''price_per_ton'', current_price), (''risk_factor'', 0.1)]
             [(''weather_quality'', py_get weather_data ''weather_score'' 0.8),
              (''soil_quality'', soil_quality),
              (''management_efficiency'', 0.9),
              (''base_yield'', 1)]
             [(''seeds'', 100), (''fertilizer'', 200), (''irrigation'', 150),
              (''labor'', 300), (''equipment'', 250)] of
        Inl e \<Rightarrow> Inl e
      | Inr profit_analysis \<Rightarrow>
     (case (case suitability_score of
              None \<Rightarrow> Inr None
            | Some row \<Rightarrow> (case py_max row of Inl e \<Rightarrow> Inl e | Inr m \<Rightarrow> Inr (Some m))) of
        Inl e \<Rightarrow> Inl e
      | Inr score \<Rightarrow>
          Inr \<lparr> ca_crop = crop,
                 ca_suitability_score = score,
                 ca_market_analysis = market_analysis,
                 ca_future_prices = future_prices,
                 ca_confidence = confidence,
                 ca_profit_analysis = profit_analysis \<rparr>))))))))"

text \<open>
  The loop \<^verbatim>\<open>for crop in crops\<close>: a crop whose market analysis is empty is skipped by
  \<^verbatim>\<open>continue\<close>, every other crop appends one entry, and an exception ends the call.
\<close>

fun analyze_crops ::
  "environment \<Rightarrow> ('clf, 'reg, 'sc) sklearn \<Rightarrow> ('clf, 'reg, 'sc) CropPredictionModel \<Rightarrow>
     (string \<times> real) list \<Rightarrow> string \<Rightarrow> string \<Rightarrow> real \<Rightarrow> string \<Rightarrow> string list \<Rightarrow>
     pyerror + crop_analysis list" where
  "analyze_crops env sk self weather_data state district farm_size soil_type [] = Inr []"
| "analyze_crops env sk self weather_data state district farm_size soil_type (crop # crops) =
     (case env_get_market_analysis env state district crop of
        Inl e \<Rightarrow> Inl e
      | Inr market_analysis \<Rightarrow>
          (if market_analysis = []
           then analyze_crops env sk self weather_data state district farm_size soil_type crops
           else (case analyze_crop sk self weather_data farm_size soil_type crop
                        market_analysis of
                   Inl e \<Rightarrow> Inl e
                 | Inr entry \<Rightarrow>
                (case analyze_crops env sk self weather_data state district farm_size
                        soil_type crops of
                   Inl e \<Rightarrow> Inl e
                 | Inr entries \<Rightarrow> Inr (entry # entries)))))"

text \<open>
  \<^verbatim>\<open>list.sort(key=lambda x: x['profit_analysis']['projected_profit'], reverse=True)\<close>:
  the keys are computed first, then the entries are sorted by decreasing key, entries
  with equal keys keeping their order. The keys are real numbers, as every number of
  the profitability engine is; the order that sorting leaves among NaN keys is
  outside the model.
\<close>

definition sort_by_profit :: "crop_analysis list \<Rightarrow> pyerror + crop_analysis list" where
  "sort_by_profit entries =
     (case those (map (\<lambda>x. map_of (ca_profit_analysis x) ''projected_profit'') entries) of
        None \<Rightarrow> Inl (KeyError ''projected_profit'')
      | Some keys \<Rightarrow> Inr (map snd (sort_key (\<lambda>(k, x). - k) (zip keys entries))))"

text \<open>
  \<^verbatim>\<open>CropPredictionModel.get_comprehensive_prediction\<close>: the pair of the values under
  \<^verbatim>\<open>'weather_conditions'\<close> and \<^verbatim>\<open>'crop_analysis'\<close>.
\<close>

definition get_comprehensive_prediction ::
  "environment \<Rightarrow> ('clf, 'reg, 'sc) sklearn \<Rightarrow> ('clf, 'reg, 'sc) CropPredictionModel \<Rightarrow>
     string \<Rightarrow> string \<Rightarrow> string \<Rightarrow> string list \<Rightarrow> real \<Rightarrow> string \<Rightarrow>
     pyerror + ((string \<times> real) list \<times> crop_analysis list)" where
  "get_comprehensive_prediction env sk self city state district crops farm_size soil_type =
     (case env_get_weather_data env city of
        Inl e \<Rightarrow> Inl e
      | Inr weather_data \<Rightarrow>
     (case analyze_crops env sk self weather_data state district farm_size soil_type crops of
        Inl e \<Rightarrow> Inl e
      | Inr entries \<Rightarrow>
     (case sort_by_profit entries of
        Inl e \<Rightarrow> Inl e
      | Inr ranked \<Rightarrow> Inr (weather_data, ranked))))"

text \<open>A stand-in for scikit-learn, used to evaluate the model on concrete inputs.\<close>

definition as_matrix :: "ndarray \<Rightarrow> matrix" where
  "as_matrix a = (case a of Arr1 v \<Rightarrow> [v] | Arr2 m \<Rightarrow> m)"

definition constant_sklearn :: "(unit, real, unit) sklearn" where
  "constant_sklearn =
     \<lparr> sk_new_classifier = (),
       sk_new_regressor = 0,
       sk_new_scaler = (),
       sk_fit_transform = (\<lambda>sc X. Inr ((), as_matrix X)),
       sk_transform = (\<lambda>sc X. Inr (as_matrix X)),
       sk_inverse_transform = (\<lambda>sc X. Inr (as_matrix X)),
       sk_classifier_fit = (\<lambda>clf X y. Inr ()),
       sk_predict_proba = (\<lambda>clf X. Inr (map (\<lambda>row. [1 / 4, 3 / 4]) X)),
       sk_classes = (\<lambda>clf. [''rice'', ''wheat'']),
       sk_regressor_fit = (\<lambda>reg X y. Inr (sum_list y / real (length y))),
       sk_predict = (\<lambda>reg X. Inr (map (\<lambda>row. reg) X)),
       sk_score = (\<lambda>reg X y. Inr 0),
       sk_argsort = (\<lambda>xs. map snd (sort_key fst (zip xs [0..<length xs]))) \<rparr>"

text \<open>
  A sample environment: the weather service does not answer, so that
  \<^verbatim>\<open>get_weather_data\<close> returns the empty dictionary, and the market has data for rice
  and wheat and none for any other crop.
\<close>

definition sample_environment :: environment where
  "sample_environment =
     \<lparr> env_get_weather_data = (\<lambda>city. Inr []),
       env_get_market_analysis =
         (\<lambda>state district commodity.
            if commodity = ''rice'' then Inr [(''current_price'', 2500)]
            else if commodity = ''wheat'' then Inr [(''current_price'', 5000)]
            else Inr []) \<rparr>"

section \<open>Soil encoding: results\<close>

lemma process_soil_data_unfold:
  "process_soil_data d fs =
     Inr [(''farm_size'', PyFloat (Fl fs)),
          (''soil_type_sandy'', PyFloat (Fl (if py_get d ''soil_type'' (PyStr ''loamy'') = PyStr ''sandy'' then 1 else 0))),
          (''soil_type_loamy'', PyFloat (Fl (if py_get d ''soil_type'' (PyStr ''loamy'') = PyStr ''loamy'' then 1 else 0))),
          (''soil_type_clay'', PyFloat (Fl (if py_get d ''soil_type'' (PyStr ''loamy'') = PyStr ''clay'' then 1 else 0))),
          (''soil_type_silt'', PyFloat (Fl (if py_get d ''soil_type'' (PyStr ''loamy'') = PyStr ''silt'' then 1 else 0))),
          (''soil_type_sandy_loam'', PyFloat (Fl (if py_get d ''soil_type'' (PyStr ''loamy'') = PyStr ''sandy_loam'' then 1 else 0))),
          (''soil_type'', py_get d ''soil_type'' (PyStr ''loamy''))]"
  by (simp add: process_soil_data_def soil_types_def Let_def)

text \<open>
  Claim C1 (as amended). \<^verbatim>\<open>process_soil_data\<close> never raises. When the soil type
  (the value under \<^verbatim>\<open>'soil_type'\<close>, or \<^verbatim>\<open>'loamy'\<close> when the key is absent) is one
  of the five recognized categories, the entry of that category is 1.0, exactly one of
  the five one-hot entries is 1.0 and the other four are 0.0. When it is not
  recognized, no validation error is raised: all five entries are 0.0.
\<close>

theorem process_soil_data_encoding:
  "\<exists>r. process_soil_data d fs = Inr r \<and>
     (\<forall>st \<in> set soil_types.
        py_get d ''soil_type'' (PyStr ''loamy'') = PyStr st \<longrightarrow>
          map_of r (''soil_type_'' @ st) = Some (PyFloat (Fl 1)) \<and>
          count_list (soil_one_hot r) (Some (PyFloat (Fl 1))) = 1 \<and>
          count_list (soil_one_hot r) (Some (PyFloat (Fl 0))) = 4) \<and>
     (py_get d ''soil_type'' (PyStr ''loamy'') \<notin> PyStr ` set soil_types \<longrightarrow>
          soil_one_hot r = [Some (PyFloat (Fl 0)), Some (PyFloat (Fl 0)), Some (PyFloat (Fl 0)), Some (PyFloat (Fl 0)),
             Some (PyFloat (Fl 0))])"
  unfolding process_soil_data_unfold
  by (auto simp: soil_one_hot_def soil_types_def)

theorem process_soil_data_encoding_witness:
  "''clay'' \<in> set soil_types \<and>
   py_get [(''soil_type'', PyStr ''clay'')] ''soil_type'' (PyStr ''loamy'') = PyStr ''clay'' \<and>
   py_get [(''soil_type'', PyStr ''peat'')] ''soil_type'' (PyStr ''loamy'') \<notin> PyStr ` set soil_types \<and>
   process_soil_data [(''soil_type'', PyStr ''clay'')] 2 =
     Inr [(''farm_size'', PyFloat (Fl 2)), (''soil_type_sandy'', PyFloat (Fl 0)),
          (''soil_type_loamy'', PyFloat (Fl 0)), (''soil_type_clay'', PyFloat (Fl 1)),
          (''soil_type_silt'', PyFloat (Fl 0)), (''soil_type_sandy_loam'', PyFloat (Fl 0)),
          (''soil_type'', PyStr ''clay'')] \<and>
   soil_one_hot [(''farm_size'', PyFloat (Fl 2)), (''soil_type_sandy'', PyFloat (Fl 0)),
          (''soil_type_loamy'', PyFloat (Fl 0)), (''soil_type_clay'', PyFloat (Fl 1)),
          (''soil_type_silt'', PyFloat (Fl 0)), (''soil_type_sandy_loam'', PyFloat (Fl 0)),
          (''soil_type'', PyStr ''clay'')] =
     [Some (PyFloat (Fl 0)), Some (PyFloat (Fl 0)), Some (PyFloat (Fl 1)), Some (PyFloat (Fl 0)), Some (PyFloat (Fl 0))]"
  using process_soil_data_encoding [of "[(''soil_type'', PyStr ''clay'')]" 2]
        process_soil_data_encoding [of "[(''soil_type'', PyStr ''peat'')]" 2]
  by (simp add: process_soil_data_unfold soil_one_hot_def soil_types_def py_get_def)

text \<open>
  The claim as stated fails: the unrecognized soil type \<^verbatim>\<open>'peat'\<close> is not rejected,
  the call returns an all-zero encoding.
\<close>

theorem process_soil_data_unrecognized_counterexample:
  "process_soil_data [(''soil_type'', PyStr ''peat'')] 1 =
     Inr [(''farm_size'', PyFloat (Fl 1)), (''soil_type_sandy'', PyFloat (Fl 0)),
          (''soil_type_loamy'', PyFloat (Fl 0)), (''soil_type_clay'', PyFloat (Fl 0)),
          (''soil_type_silt'', PyFloat (Fl 0)), (''soil_type_sandy_loam'', PyFloat (Fl 0)),
          (''soil_type'', PyStr ''peat'')]"
  by (simp add: process_soil_data_unfold py_get_def)

text \<open>
  Claim C10. When the soil input has no \<^verbatim>\<open>'soil_type'\<close> key, \<^verbatim>\<open>process_soil_data\<close>
  returns without error the encoding of \<^verbatim>\<open>'loamy'\<close>: \<^verbatim>\<open>soil_type_loamy\<close> is 1.0 and
  the other four categories are 0.0.
\<close>

theorem process_soil_data_missing_key_is_loamy:
  "map_of soil_data ''soil_type'' = None \<Longrightarrow>
   process_soil_data soil_data farm_size =
     Inr [(''farm_size'', PyFloat (Fl farm_size)), (''soil_type_sandy'', PyFloat (Fl 0)),
          (''soil_type_loamy'', PyFloat (Fl 1)), (''soil_type_clay'', PyFloat (Fl 0)),
          (''soil_type_silt'', PyFloat (Fl 0)), (''soil_type_sandy_loam'', PyFloat (Fl 0)),
          (''soil_type'', PyStr ''loamy'')]"
  by (simp add: process_soil_data_unfold py_get_def)

theorem process_soil_data_missing_key_is_loamy_witness:
  "map_of [(''ph'', PyFloat (Fl 6.5))] ''soil_type'' = None \<and>
   process_soil_data [(''ph'', PyFloat (Fl 6.5))] 3 =
     Inr [(''farm_size'', PyFloat (Fl 3)), (''soil_type_sandy'', PyFloat (Fl 0)),
          (''soil_type_loamy'', PyFloat (Fl 1)), (''soil_type_clay'', PyFloat (Fl 0)),
          (''soil_type_silt'', PyFloat (Fl 0)), (''soil_type_sandy_loam'', PyFloat (Fl 0)),
          (''soil_type'', PyStr ''loamy'')]"
  using process_soil_data_missing_key_is_loamy [of "[(''ph'', PyFloat (Fl 6.5))]" 3]
  by simp

section \<open>Profitability engine: results\<close>

lemma sum_costs_known_keys:
  "fst ` set items \<subseteq> fst ` set cf \<Longrightarrow> \<exists>s. sum_costs cf acc items = Inr s"
proof (induction items arbitrary: acc)
  case Nil
  then show ?case by simp
next
  case (Cons p items)
  obtain factor cost where p: "p = (factor, cost)" by (cases p)
  from Cons.prems p have "factor \<in> fst ` set cf" by simp
  then obtain f where "map_of cf factor = Some f"
    by (metis domD dom_map_of_conv_image_fst)
  moreover from Cons.prems have "fst ` set items \<subseteq> fst ` set cf" by simp
  ultimately show ?case using Cons.IH p by simp
qed

lemma sum_costs_unit_factors:
  "\<forall>k \<in> fst ` set items. map_of cf k = Some 1 \<Longrightarrow>
   sum_costs cf acc items = Inr (acc + sum_list (map snd items))"
  by (induction items arbitrary: acc) (auto simp: algebra_simps)

lemma default_cost_factors_unit:
  "k \<in> fst ` set (cost_factors ProfitCalculator_init) \<Longrightarrow>
   map_of (cost_factors ProfitCalculator_init) k = Some 1"
  by (auto simp: ProfitCalculator_init_def)

text \<open>
  Claim C2. \<^verbatim>\<open>analyze_profitability\<close> returns whenever every key of
  \<^verbatim>\<open>input_costs\<close> is a cost factor, and in every result it returns \<^verbatim>\<open>roi\<close> is
  \<^verbatim>\<open>projected_profit / total_cost\<close> when \<^verbatim>\<open>total_cost > 0\<close> and exactly 0 otherwise.
\<close>

theorem analyze_profitability_roi:
  "(fst ` set input_costs \<subseteq> fst ` set (cost_factors self) \<longrightarrow>
      (\<exists>r. analyze_profitability self crop_name area market_data conditions input_costs = Inr r)) \<and>
   (\<forall>r. analyze_profitability self crop_name area market_data conditions input_costs = Inr r \<longrightarrow>
      (\<exists>cost profit.
         map_of r ''total_cost'' = Some cost \<and>
         map_of r ''projected_profit'' = Some profit \<and>
         map_of r ''roi'' = Some (if cost > 0 then profit / cost else 0)))"
proof (intro conjI impI allI)
  assume "fst ` set input_costs \<subseteq> fst ` set (cost_factors self)"
  then obtain s where "sum_costs (cost_factors self) 0 input_costs = Inr s"
    using sum_costs_known_keys by blast
  then show "\<exists>r. analyze_profitability self crop_name area market_data conditions input_costs = Inr r"
    by (simp add: analyze_profitability_def calculate_production_cost_def Let_def)
next
  fix r
  assume "analyze_profitability self crop_name area market_data conditions input_costs = Inr r"
  then show "\<exists>cost profit.
         map_of r ''total_cost'' = Some cost \<and>
         map_of r ''projected_profit'' = Some profit \<and>
         map_of r ''roi'' = Some (if cost > 0 then profit / cost else 0)"
    by (auto simp: analyze_profitability_def Let_def split: sum.splits)
qed

theorem analyze_profitability_roi_witness:
  "fst ` set [(''seeds'', 100::real), (''labor'', 300)] \<subseteq> fst ` set (cost_factors ProfitCalculator_init) \<and>
   analyze_profitability ProfitCalculator_init ''rice'' 1
       [(''price_per_ton'', 500), (''risk_factor'', 0)] [(''base_yield'', 1)]
       [(''seeds'', 100), (''labor'', 300)] =
     Inr [(''total_cost'', 400), (''estimated_yield'', 1), (''expected_revenue'', 500),
          (''projected_profit'', 100), (''roi'', 1 / 4), (''risk_factor'', 0)] \<and>
   analyze_profitability ProfitCalculator_init ''rice'' 1
       [(''price_per_ton'', 500), (''risk_factor'', 0)] [(''base_yield'', 1)] [] =
     Inr [(''total_cost'', 0), (''estimated_yield'', 1), (''expected_revenue'', 500),
          (''projected_profit'', 500), (''roi'', 0), (''risk_factor'', 0)]"
  using analyze_profitability_roi [of "[(''seeds'', 100), (''labor'', 300)]" ProfitCalculator_init
          "''rice''" 1 "[(''price_per_ton'', 500), (''risk_factor'', 0)]" "[(''base_yield'', 1)]"]
        analyze_profitability_roi [of "[]" ProfitCalculator_init
          "''rice''" 1 "[(''price_per_ton'', 500), (''risk_factor'', 0)]" "[(''base_yield'', 1)]"]
  by (simp add: analyze_profitability_def calculate_production_cost_def ProfitCalculator_init_def
        estimate_yield_def calculate_revenue_def calculate_profit_def py_get_def Let_def)

text \<open>
  Claim C3. \<^verbatim>\<open>calculate_break_even_price\<close> returns \<^verbatim>\<open>total_cost / estimated_yield\<close>
  when \<^verbatim>\<open>estimated_yield > 0\<close> and the \<^verbatim>\<open>+infinity\<close> sentinel when
  \<^verbatim>\<open>estimated_yield\<close> is 0.
\<close>

theorem calculate_break_even_price_cases:
  "(estimated_yield > 0 \<longrightarrow>
      calculate_break_even_price total_cost estimated_yield = Finite (total_cost / estimated_yield)) \<and>
   (estimated_yield = 0 \<longrightarrow>
      calculate_break_even_price total_cost estimated_yield = PosInf)"
  by (simp add: calculate_break_even_price_def)

theorem calculate_break_even_price_cases_witness:
  "(4::real) > 0 \<and> calculate_break_even_price 2000 4 = Finite 500 \<and>
   calculate_break_even_price 2000 0 = PosInf"
  using calculate_break_even_price_cases [of 4 2000] calculate_break_even_price_cases [of 0 2000]
  by simp

text \<open>
  Claim C4. The worked example: area 2, base yield and the three quality factors 1.0,
  price per ton 300, risk factor 0.1, input costs over the default cost factors that
  sum to 1000 per unit area. The result has estimated yield 2, expected revenue 600,
  total cost 2000 and projected profit \<open>(600 - 2000) * 0.9 = -1260\<close>.
\<close>

theorem analyze_profitability_worked_example:
  assumes "fst ` set input_costs \<subseteq> fst ` set (cost_factors ProfitCalculator_init)"
    and "sum_list (map snd input_costs) = 1000"
  shows "analyze_profitability ProfitCalculator_init crop_name 2
           [(''price_per_ton'', 300), (''risk_factor'', 0.1)]
           [(''base_yield'', 1), (''weather_quality'', 1), (''soil_quality'', 1),
            (''management_efficiency'', 1)]
           input_costs =
         Inr [(''total_cost'', 2000), (''estimated_yield'', 2), (''expected_revenue'', 600),
              (''projected_profit'', (600 - 2000) * 0.9), (''roi'', - 0.63),
              (''risk_factor'', 0.1)]"
proof -
  from assms(1) have "\<forall>k \<in> fst ` set input_costs.
      map_of (cost_factors ProfitCalculator_init) k = Some 1"
    using default_cost_factors_unit by blast
  then have "sum_costs (cost_factors ProfitCalculator_init) 0 input_costs = Inr 1000"
    using sum_costs_unit_factors [of input_costs "cost_factors ProfitCalculator_init" 0] assms(2)
    by simp
  then show ?thesis
    by (simp add: analyze_profitability_def calculate_production_cost_def
        estimate_yield_def calculate_revenue_def calculate_profit_def py_get_def Let_def)
qed

theorem analyze_profitability_worked_example_witness:
  "fst ` set [(''seeds'', 100::real), (''fertilizer'', 200), (''irrigation'', 150), (''labor'', 300),
              (''equipment'', 250)] \<subseteq> fst ` set (cost_factors ProfitCalculator_init) \<and>
   sum_list (map snd [(''seeds'', 100::real), (''fertilizer'', 200), (''irrigation'', 150),
              (''labor'', 300), (''equipment'', 250)]) = 1000 \<and>
   analyze_profitability ProfitCalculator_init ''rice'' 2
           [(''price_per_ton'', 300), (''risk_factor'', 0.1)]
           [(''base_yield'', 1), (''weather_quality'', 1), (''soil_quality'', 1),
            (''management_efficiency'', 1)]
           [(''seeds'', 100), (''fertilizer'', 200), (''irrigation'', 150), (''labor'', 300),
            (''equipment'', 250)] =
         Inr [(''total_cost'', 2000), (''estimated_yield'', 2), (''expected_revenue'', 600),
              (''projected_profit'', - 1260), (''roi'', - 0.63), (''risk_factor'', 0.1)]"
  using analyze_profitability_worked_example [of "[(''seeds'', 100), (''fertilizer'', 200),
          (''irrigation'', 150), (''labor'', 300), (''equipment'', 250)]" "''rice''"]
  by (simp add: ProfitCalculator_init_def)

section \<open>Price trend forecaster: results\<close>

lemma py_max0_ge0: "fl_ge0 (py_max0 x)"
  by (cases x) (simp_all add: py_max0_def)

lemma forecast_loop_ge0:
  "forecast_loop self t s m last_price n = Inr fs \<Longrightarrow> \<forall>f \<in> set fs. fl_ge0 f"
proof (induction n arbitrary: last_price fs)
  case 0
  then show ?case by simp
next
  case (Suc n)
  then show ?case
    by (auto simp: Let_def py_max0_ge0 split: option.splits sum.splits)
qed

lemma forecast_loop_returns:
  assumes "map_of (price_weights self) ''historical_trend'' = Some a"
    and "map_of (price_weights self) ''seasonal_factor'' = Some b"
    and "map_of (price_weights self) ''market_sentiment'' = Some c"
  shows "\<exists>fs. forecast_loop self t s m last_price n = Inr fs \<and> length fs = n"
proof (induction n arbitrary: last_price)
  case 0
  then show ?case by simp
next
  case (Suc n)
  let ?f = "fl_add (fl_add (fl_add last_price (fl_mul t (Fl a))) (fl_mul s (Fl b))) (fl_mul m (Fl c))"
  from Suc.IH [of ?f] obtain fs where "forecast_loop self t s m ?f n = Inr fs" "length fs = n"
    by blast
  then show ?case using assms by (simp add: Let_def)
qed

lemma key_times_weight_numeric:
  "numeric_key k \<Longrightarrow> \<exists>v. key_times_weight k w = Inr v"
  by (cases k) simp_all

text \<open>
  An indicator dictionary keyed by names, as its annotation \<^verbatim>\<open>Dict[str, float]\<close> says,
  makes the sum raise: no forecast is returned for it.
\<close>

lemma sentiment_sum_string_key:
  "sentiment_sum acc ((PyStr s, weight) # items) = Inl TypeError"
  by simp

lemma sentiment_sum_numeric_keys:
  "list_all (\<lambda>(k, w). numeric_key k) items \<Longrightarrow> \<exists>s. sentiment_sum acc items = Inr s"
proof (induction items arbitrary: acc)
  case Nil
  then show ?case by simp
next
  case (Cons p items)
  obtain k w where p: "p = (k, w)" by (cases p)
  from Cons.prems p have "numeric_key k" by simp
  then obtain v where v: "key_times_weight k w = Inr v"
    using key_times_weight_numeric by blast
  from Cons.prems have "list_all (\<lambda>(k, w). numeric_key k) items" by simp
  from Cons.IH [OF this, of "fl_add acc v"] show ?case using p v by simp
qed

lemma map_of_known_key: "k \<in> fst ` set d \<Longrightarrow> \<exists>v. map_of d k = Some v"
  by (cases "map_of d k") (simp_all add: map_of_eq_None_iff)

lemma forecast_price_trend_Inr:
  assumes "forecast_price_trend polyfit self hp sf mi period = Inr fs"
  shows "\<exists>t s. forecast_loop self t (np_mean sf) s (Fl (last hp)) (nat period) = Inr fs"
proof (cases "polyfit hp")
  case (Inl e)
  with assms show ?thesis by (simp add: forecast_price_trend_def)
next
  case t: (Inr t)
  show ?thesis
  proof (cases "sentiment_sum (Fl 0) mi")
    case (Inl e)
    with assms t show ?thesis by (simp add: forecast_price_trend_def)
  next
    case s: (Inr s)
    show ?thesis
    proof (cases "hp = []")
      case True
      with assms t s show ?thesis by (simp add: forecast_price_trend_def)
    next
      case False
      with assms t s have "forecast_loop self t (np_mean sf) s (Fl (last hp)) (nat period) = Inr fs"
        by (simp add: forecast_price_trend_def)
      then show ?thesis by blast
    qed
  qed
qed

text \<open>
  Claim C5. Every value of every sequence that \<^verbatim>\<open>forecast_price_trend\<close> returns is
  greater than or equal to 0, whatever the historical prices, the seasonal factors,
  the market indicators, the weights and the result of the fit. The call returns, with
  one value per forecast period, whenever the series is not empty, the fit returns,
  the indicator keys are numeric and the three weights it reads are present.
\<close>

theorem forecast_price_trend_nonnegative:
  "(\<forall>fs. forecast_price_trend polyfit self historical_prices seasonal_factors market_indicators
             forecast_period = Inr fs \<longrightarrow> (\<forall>f \<in> set fs. fl_ge0 f)) \<and>
   (historical_prices \<noteq> [] \<and> (\<exists>t. polyfit historical_prices = Inr t) \<and>
    list_all (\<lambda>(k, w). numeric_key k) market_indicators \<and>
    ''historical_trend'' \<in> fst ` set (price_weights self) \<and>
    ''seasonal_factor'' \<in> fst ` set (price_weights self) \<and>
    ''market_sentiment'' \<in> fst ` set (price_weights self) \<longrightarrow>
    (\<exists>fs. forecast_price_trend polyfit self historical_prices seasonal_factors market_indicators
             forecast_period = Inr fs \<and> length fs = nat forecast_period))"
proof (intro conjI allI impI)
  fix fs
  assume "forecast_price_trend polyfit self historical_prices seasonal_factors
      market_indicators forecast_period = Inr fs"
  then obtain t s where "forecast_loop self t (np_mean seasonal_factors) s
      (Fl (last historical_prices)) (nat forecast_period) = Inr fs"
    using forecast_price_trend_Inr by blast
  then show "\<forall>f \<in> set fs. fl_ge0 f"
    by (rule forecast_loop_ge0)
next
  assume h: "historical_prices \<noteq> [] \<and> (\<exists>t. polyfit historical_prices = Inr t) \<and>
    list_all (\<lambda>(k, w). numeric_key k) market_indicators \<and>
    ''historical_trend'' \<in> fst ` set (price_weights self) \<and>
    ''seasonal_factor'' \<in> fst ` set (price_weights self) \<and>
    ''market_sentiment'' \<in> fst ` set (price_weights self)"
  from h have ne: "historical_prices \<noteq> []" ..
  from h have ex: "\<exists>t. polyfit historical_prices = Inr t"
    by (elim conjE)
  from h have num: "list_all (\<lambda>(k, w). numeric_key k) market_indicators"
    by (elim conjE)
  from h have k1: "''historical_trend'' \<in> fst ` set (price_weights self)"
    by (elim conjE)
  from h have k2: "''seasonal_factor'' \<in> fst ` set (price_weights self)"
    by (elim conjE)
  from h have k3: "''market_sentiment'' \<in> fst ` set (price_weights self)"
    by (elim conjE)
  from ex obtain t where t: "polyfit historical_prices = Inr t" ..
  from sentiment_sum_numeric_keys [OF num]
  obtain s where s: "sentiment_sum (Fl 0) market_indicators = Inr s" ..
  from map_of_known_key [OF k1]
  obtain a where a: "map_of (price_weights self) ''historical_trend'' = Some a" ..
  from map_of_known_key [OF k2]
  obtain b where b: "map_of (price_weights self) ''seasonal_factor'' = Some b" ..
  from map_of_known_key [OF k3]
  obtain c where c: "map_of (price_weights self) ''market_sentiment'' = Some c" ..
  from forecast_loop_returns [OF a b c]
  obtain fs where fs: "forecast_loop self t (np_mean seasonal_factors) s
      (Fl (last historical_prices)) (nat forecast_period) = Inr fs \<and> length fs = nat forecast_period"
    ..
  have "forecast_price_trend polyfit self historical_prices seasonal_factors
      market_indicators forecast_period = forecast_loop self t (np_mean seasonal_factors) s
      (Fl (last historical_prices)) (nat forecast_period)"
    using ne t s by (simp add: forecast_price_trend_def)
  with fs show "\<exists>fs. forecast_price_trend polyfit self historical_prices seasonal_factors
      market_indicators forecast_period = Inr fs \<and> length fs = nat forecast_period"
    by simp
qed

lemma lstsq_polyfit_example: "lstsq_polyfit [10, 4] = Inr (Fl (- 6))"
  by (simp add: lstsq_polyfit_def lstsq_slope_def Let_def numeral_2_eq_2)

theorem forecast_price_trend_nonnegative_witness:
  "[10, 4] \<noteq> ([]::real list) \<and> lstsq_polyfit [10, 4] = Inr (Fl (- 6)) \<and>
   list_all (\<lambda>(k, w). numeric_key k) [(PyFloat (Fl 2), 0.5::real)] \<and>
   ''historical_trend'' \<in> fst ` set (price_weights ProfitCalculator_init) \<and>
   ''seasonal_factor'' \<in> fst ` set (price_weights ProfitCalculator_init) \<and>
   ''market_sentiment'' \<in> fst ` set (price_weights ProfitCalculator_init) \<and>
   forecast_price_trend lstsq_polyfit ProfitCalculator_init [10, 4] [1] [(PyFloat (Fl 2), 0.5)] 3
     = Inr [Fl 2.6, Fl 1.2, Fl 0] \<and>
   forecast_price_trend lstsq_polyfit ProfitCalculator_init [10, 4] [] [] 2 = Inr [Fl 0, Fl 0]"
  using forecast_price_trend_nonnegative [of lstsq_polyfit ProfitCalculator_init "[10, 4]" "[1]"
          "[(PyFloat (Fl 2), 0.5)]" 3]
  by (simp add: forecast_price_trend_def lstsq_polyfit_example np_mean_def
        ProfitCalculator_init_def numeral_3_eq_3 numeral_2_eq_2 py_max0_def)

section \<open>Feature builder: results\<close>

text \<open>The aggregation and the specification's mean agree on the cells that are present.\<close>

lemma fl_values_present: "fl_values col = present_values col"
proof (induction col)
  case Nil
  then show ?case by (simp add: present_values_def)
next
  case (Cons c col)
  then show ?case by (cases c) (simp_all add: present_values_def)
qed


lemma series_mean_all_missing:
  "present_values col = [] \<Longrightarrow> series_mean col = NaN"
  by (simp add: series_mean_def np_mean_def fl_values_present)











text \<open>
  A column that is present with every cell missing is outside the amended claim: its
  feature is NaN.
\<close>

lemma weather_features_all_missing:
  "weather_features
     [(''temperature'', [Fl 20, Fl 30]), (''humidity'', [Fl 50, Fl 70]),
      (''rainfall'', [Fl 0, Fl 4]), (''soil_moisture'', [NaN, NaN])] =
   Inr [(''temperature'', Fl 25), (''humidity'', Fl 60), (''rainfall'', Fl 2),
        (''heat_index'', Fl 0), (''soil_moisture'', NaN)]"
  by (simp add: weather_features_def df_column_def series_mean_def np_mean_def)

text \<open>\<^verbatim>\<open>clean_weather_data\<close> on two observations, one without temperature and rainfall.\<close>

lemma clean_weather_data_example:
  "clean_weather_data
     [(''temperature'', [Fl 20, NaN]), (''humidity'', [Fl 50, Fl 50]),
      (''rainfall'', [NaN, Fl 0])] =
   Inr [(''temperature'', [Fl 20, Fl 20]), (''humidity'', [Fl 50, Fl 50]),
        (''rainfall'', [Fl 0, Fl 0]), (''heat_index'', [Fl (697 / 36), Fl (697 / 36)])]"
  by (simp add: clean_weather_data_def make_dataframe_def fill_missing_weather_def
        df_column_def df_fillna_def fillna_column_def series_mean_def series_std_def
        np_mean_def df_select_rows_def calculate_heat_index_def Let_def)

text \<open>The clock enters the features only through its month.\<close>

lemma market_features_month:
  "dt_month now1 = dt_month now2 \<Longrightarrow>
   market_features polyfit now1 market_data = market_features polyfit now2 market_data"
proof -
  assume "dt_month now1 = dt_month now2"
  then have "get_seasonal_factor now1 = get_seasonal_factor now2"
    by (simp add: get_seasonal_factor_def)
  then show ?thesis
    by (simp add: market_features_def split: sum.splits)
qed

text \<open>
  Claim C6 (as amended). Two calls of \<^verbatim>\<open>prepare_prediction_features\<close> with identical
  weather, soil, market and historical-price inputs, made in the same calendar month,
  produce identical feature vectors with identical field order.
\<close>

theorem prepare_prediction_features_same_month:
  "dt_month now1 = dt_month now2 \<Longrightarrow>
   prepare_prediction_features polyfit now1 weather_data soil_data market_data historical_prices =
   prepare_prediction_features polyfit now2 weather_data soil_data market_data historical_prices"
proof -
  assume "dt_month now1 = dt_month now2"
  then have eq: "market_features polyfit now1 market_data = market_features polyfit now2 market_data"
    by (rule market_features_month)
  show ?thesis
    unfolding prepare_prediction_features_def eq ..
qed


lemma seasonal_march: "get_seasonal_factor \<lparr>dt_year = 2025, dt_month = 3, dt_day = 14\<rparr> = 1"
  by (simp add: get_seasonal_factor_def)

lemma seasonal_june: "get_seasonal_factor \<lparr>dt_year = 2025, dt_month = 6, dt_day = 14\<rparr> = 0"
  by (simp add: get_seasonal_factor_def)

text \<open>
  The claim as stated fails: the same inputs give a different crop feature vector in
  March and in June, because the seasonal factor is computed from the clock.
\<close>

theorem prepare_prediction_features_clock_counterexample:
  "prepare_prediction_features lstsq_polyfit \<lparr>dt_year = 2025, dt_month = 3, dt_day = 14\<rparr>
     [(''temperature'', [Fl 20, Fl 30]), (''humidity'', [Fl 50, Fl 70]), (''rainfall'', [Fl 0, Fl 4])]
     [(''farm_size'', PyFloat (Fl 1))] [(''current_price'', MNum 100)] None
   = Inr ([PyFloat (Fl 25), PyFloat (Fl 60), PyFloat (Fl 2), PyFloat (Fl 0), PyFloat (Fl 0),
           PyFloat (Fl 1), PyFloat (Fl 100), PyFloat (Fl 0), PyFloat (Fl 0), PyFloat (Fl 0),
           PyFloat (Fl 1)], None) \<and>
   prepare_prediction_features lstsq_polyfit \<lparr>dt_year = 2025, dt_month = 6, dt_day = 14\<rparr>
     [(''temperature'', [Fl 20, Fl 30]), (''humidity'', [Fl 50, Fl 70]), (''rainfall'', [Fl 0, Fl 4])]
     [(''farm_size'', PyFloat (Fl 1))] [(''current_price'', MNum 100)] None
   = Inr ([PyFloat (Fl 25), PyFloat (Fl 60), PyFloat (Fl 2), PyFloat (Fl 0), PyFloat (Fl 0),
           PyFloat (Fl 1), PyFloat (Fl 100), PyFloat (Fl 0), PyFloat (Fl 0), PyFloat (Fl 0),
           PyFloat (Fl 0)], None) \<and>
   prepare_prediction_features lstsq_polyfit \<lparr>dt_year = 2025, dt_month = 3, dt_day = 14\<rparr>
     [(''temperature'', [Fl 20, Fl 30]), (''humidity'', [Fl 50, Fl 70]), (''rainfall'', [Fl 0, Fl 4])]
     [(''farm_size'', PyFloat (Fl 1))] [(''current_price'', MNum 100)] None
   \<noteq>
   prepare_prediction_features lstsq_polyfit \<lparr>dt_year = 2025, dt_month = 6, dt_day = 14\<rparr>
     [(''temperature'', [Fl 20, Fl 30]), (''humidity'', [Fl 50, Fl 70]), (''rainfall'', [Fl 0, Fl 4])]
     [(''farm_size'', PyFloat (Fl 1))] [(''current_price'', MNum 100)] None"
  by (simp add: prepare_prediction_features_def weather_features_def market_features_def
        df_column_def series_mean_def np_mean_def market_float_def calculate_market_trend_def
        seasonal_march seasonal_june dict_update_def as_pyval_def)

theorem prepare_prediction_features_same_month_witness:
  "dt_month \<lparr>dt_year = 2025, dt_month = 3, dt_day = 14\<rparr> =
   dt_month \<lparr>dt_year = 2031, dt_month = 3, dt_day = 2\<rparr> \<and>
   prepare_prediction_features lstsq_polyfit \<lparr>dt_year = 2025, dt_month = 3, dt_day = 14\<rparr>
     [(''temperature'', [Fl 20, Fl 30]), (''humidity'', [Fl 50, Fl 70]), (''rainfall'', [Fl 0, Fl 4])]
     [(''farm_size'', PyFloat (Fl 1))] [(''current_price'', MNum 100)] (Some [(''price'', [Fl 1, Fl 2])]) =
   prepare_prediction_features lstsq_polyfit \<lparr>dt_year = 2031, dt_month = 3, dt_day = 2\<rparr>
     [(''temperature'', [Fl 20, Fl 30]), (''humidity'', [Fl 50, Fl 70]), (''rainfall'', [Fl 0, Fl 4])]
     [(''farm_size'', PyFloat (Fl 1))] [(''current_price'', MNum 100)] (Some [(''price'', [Fl 1, Fl 2])])"
  using prepare_prediction_features_same_month [of "\<lparr>dt_year = 2025, dt_month = 3, dt_day = 14\<rparr>"
     "\<lparr>dt_year = 2031, dt_month = 3, dt_day = 2\<rparr>" lstsq_polyfit
     "[(''temperature'', [Fl 20, Fl 30]), (''humidity'', [Fl 50, Fl 70]), (''rainfall'', [Fl 0, Fl 4])]"
     "[(''farm_size'', PyFloat (Fl 1))]" "[(''current_price'', MNum 100)]" "Some [(''price'', [Fl 1, Fl 2])]"]
  by simp

section \<open>Prediction model: results\<close>

text \<open>
  Claim C8. A prediction call on an untrained model fails: \<^verbatim>\<open>predict_best_crops\<close>
  raises while the crop model is untrained, and \<^verbatim>\<open>predict_future_price\<close> raises for a
  crop that has no trained price regressor, whatever regressors exist for other crops.
  The exception of the source is a \<^verbatim>\<open>ValueError\<close> with the message shown.
\<close>

theorem predictions_require_training:
  "(\<not> is_crop_model_trained self \<longrightarrow>
      predict_best_crops sk self features n_recommendations =
        Inl (ValueError ''Crop model must be trained before making predictions'')) \<and>
   (crop \<notin> trained_crops self \<longrightarrow>
      predict_future_price sk self features crop forecast_periods =
        Inl (ValueError (''No price model trained for crop: '' @ crop)))"
  by (simp add: predict_best_crops_def predict_future_price_def)

lemma trained_wheat:
  "train_price_model constant_sklearn (CropPredictionModel_init constant_sklearn)
     (Arr2 [[1, 2], [3, 4]]) [10, 20] ''wheat'' =
   (None, \<lparr> profit_calculator = ProfitCalculator_init, crop_model = (),
            price_models = [(''wheat'', 15)], crop_scaler = (),
            price_scalers = [(''wheat'', ())], is_crop_model_trained = False,
            trained_crops = {''wheat''} \<rparr>)"
  by (simp add: train_price_model_def CropPredictionModel_init_def constant_sklearn_def
        as_matrix_def Let_def)

theorem predictions_require_training_witness:
  "\<not> is_crop_model_trained (CropPredictionModel_init constant_sklearn) \<and>
   predict_best_crops constant_sklearn (CropPredictionModel_init constant_sklearn)
       (Arr2 [[1, 2]]) 3 =
     Inl (ValueError ''Crop model must be trained before making predictions'') \<and>
   ''rice'' \<notin> trained_crops
       (snd (train_price_model constant_sklearn (CropPredictionModel_init constant_sklearn)
               (Arr2 [[1, 2], [3, 4]]) [10, 20] ''wheat'')) \<and>
   predict_future_price constant_sklearn
       (snd (train_price_model constant_sklearn (CropPredictionModel_init constant_sklearn)
               (Arr2 [[1, 2], [3, 4]]) [10, 20] ''wheat''))
       (Arr2 [[1, 2]]) ''rice'' 12 =
     Inl (ValueError ''No price model trained for crop: rice'') \<and>
   predict_future_price constant_sklearn
       (snd (train_price_model constant_sklearn (CropPredictionModel_init constant_sklearn)
               (Arr2 [[1, 2], [3, 4]]) [10, 20] ''wheat''))
       (Arr2 [[1, 2]]) ''wheat'' 2 = Inr ([15, 15], 0)"
proof -
  have t: "snd (train_price_model constant_sklearn (CropPredictionModel_init constant_sklearn)
               (Arr2 [[1, 2], [3, 4]]) [10, 20] ''wheat'') =
           \<lparr> profit_calculator = ProfitCalculator_init, crop_model = (),
             price_models = [(''wheat'', 15)], crop_scaler = (),
             price_scalers = [(''wheat'', ())], is_crop_model_trained = False,
             trained_crops = {''wheat''} \<rparr>"
    by (simp add: trained_wheat)
  show ?thesis
    using predictions_require_training [of "CropPredictionModel_init constant_sklearn"
            constant_sklearn "Arr2 [[1, 2]]" 3 "''rice''" 12]
          predictions_require_training [of
            "snd (train_price_model constant_sklearn (CropPredictionModel_init constant_sklearn)
                 (Arr2 [[1, 2], [3, 4]]) [10, 20] ''wheat'')"
            constant_sklearn "Arr2 [[1, 2]]" 3 "''rice''" 12]
    unfolding t
    by (simp add: predict_future_price_def preprocess_price_data_def
          last_column_def numeral_2_eq_2 constant_sklearn_def as_matrix_def
          CropPredictionModel_init_def)
qed

section \<open>Prediction orchestrator: results\<close>

lemma analyze_crop_raises:
  "analyze_crop sk self weather_data farm_size soil_type crop market_analysis =
     Inl (AttributeError ''combine_features'')"
  by (simp add: analyze_crop_def combine_features_def)

lemma analyze_crops_returned:
  "analyze_crops env sk self weather_data state district farm_size soil_type crops = Inr entries \<Longrightarrow>
   entries = [] \<and> (\<forall>c \<in> set crops. env_get_market_analysis env state district c = Inr [])"
proof (induction crops)
  case Nil
  then show ?case by simp
next
  case (Cons crop crops)
  show ?case
  proof (cases "env_get_market_analysis env state district crop")
    case (Inl e)
    with Cons.prems show ?thesis by simp
  next
    case ma: (Inr market_analysis)
    show ?thesis
    proof (cases "market_analysis = []")
      case True
      with Cons.prems ma have
        "analyze_crops env sk self weather_data state district farm_size soil_type crops = Inr entries"
        by simp
      from Cons.IH [OF this] ma True show ?thesis by simp
    next
      case False
      with Cons.prems ma show ?thesis by (simp add: analyze_crop_raises)
    qed
  qed
qed

lemma analyze_crops_raises:
  "\<forall>c \<in> set crops. \<exists>ma. env_get_market_analysis env state district c = Inr ma \<Longrightarrow>
   \<exists>c \<in> set crops. env_get_market_analysis env state district c \<noteq> Inr [] \<Longrightarrow>
   analyze_crops env sk self weather_data state district farm_size soil_type crops =
     Inl (AttributeError ''combine_features'')"
proof (induction crops)
  case Nil
  then show ?case by simp
next
  case (Cons crop crops)
  from Cons.prems(1) obtain ma where ma: "env_get_market_analysis env state district crop = Inr ma"
    by auto
  show ?case
  proof (cases "ma = []")
    case True
    with ma Cons.prems(2) have "\<exists>c \<in> set crops. env_get_market_analysis env state district c \<noteq> Inr []"
      by auto
    moreover from Cons.prems(1) have
      "\<forall>c \<in> set crops. \<exists>ma. env_get_market_analysis env state district c = Inr ma"
      by simp
    ultimately have "analyze_crops env sk self weather_data state district farm_size soil_type crops =
        Inl (AttributeError ''combine_features'')"
      by (rule Cons.IH [rotated])
    with ma True show ?thesis by simp
  next
    case False
    with ma show ?thesis by (simp add: analyze_crop_raises)
  qed
qed

lemma sort_by_profit_Nil: "sort_by_profit [] = Inr []"
  by (simp add: sort_by_profit_def)

text \<open>
  Claim C7. The claim describes the ranking that \<^verbatim>\<open>get_comprehensive_prediction\<close> is
  written to return: crops without market data left out, the others sorted by
  decreasing projected profit. The code does not deliver it. Every result that the
  call returns has an empty ranking, and none of the requested crops had market data;
  and whenever the lookups return and some requested crop has market data, the call
  raises \<^verbatim>\<open>AttributeError\<close>, because the loop then calls \<^verbatim>\<open>combine_features\<close>, which
  \<^verbatim>\<open>DataProcessor\<close> does not define.
\<close>

theorem get_comprehensive_prediction_never_ranks:
  "(\<forall>weather ranked.
      get_comprehensive_prediction env sk self city state district crops farm_size soil_type =
        Inr (weather, ranked) \<longrightarrow>
      ranked = [] \<and> (\<forall>c \<in> set crops. env_get_market_analysis env state district c = Inr [])) \<and>
   ((\<exists>weather. env_get_weather_data env city = Inr weather) \<and>
    (\<forall>c \<in> set crops. \<exists>ma. env_get_market_analysis env state district c = Inr ma) \<and>
    (\<exists>c \<in> set crops. env_get_market_analysis env state district c \<noteq> Inr []) \<longrightarrow>
      get_comprehensive_prediction env sk self city state district crops farm_size soil_type =
        Inl (AttributeError ''combine_features''))"
proof (intro conjI)
  show "\<forall>weather ranked.
      get_comprehensive_prediction env sk self city state district crops farm_size soil_type =
        Inr (weather, ranked) \<longrightarrow>
      ranked = [] \<and> (\<forall>c \<in> set crops. env_get_market_analysis env state district c = Inr [])"
  proof (intro allI impI)
    fix weather ranked
    assume "get_comprehensive_prediction env sk self city state district crops farm_size
        soil_type = Inr (weather, ranked)"
    then obtain entries where
      entries: "analyze_crops env sk self weather state district farm_size soil_type crops =
        Inr entries"
      and ranked: "sort_by_profit entries = Inr ranked"
      by (auto simp: get_comprehensive_prediction_def split: sum.splits)
    from analyze_crops_returned [OF entries] have e: "entries = []"
      and none: "\<forall>c \<in> set crops. env_get_market_analysis env state district c = Inr []"
      by simp_all
    from ranked e have "ranked = []"
      by (simp add: sort_by_profit_Nil)
    with none show "ranked = [] \<and>
        (\<forall>c \<in> set crops. env_get_market_analysis env state district c = Inr [])"
      by simp
  qed
  show "(\<exists>weather. env_get_weather_data env city = Inr weather) \<and>
    (\<forall>c \<in> set crops. \<exists>ma. env_get_market_analysis env state district c = Inr ma) \<and>
    (\<exists>c \<in> set crops. env_get_market_analysis env state district c \<noteq> Inr []) \<longrightarrow>
      get_comprehensive_prediction env sk self city state district crops farm_size soil_type =
        Inl (AttributeError ''combine_features'')"
  proof
    assume h: "(\<exists>weather. env_get_weather_data env city = Inr weather) \<and>
      (\<forall>c \<in> set crops. \<exists>ma. env_get_market_analysis env state district c = Inr ma) \<and>
      (\<exists>c \<in> set crops. env_get_market_analysis env state district c \<noteq> Inr [])"
    then obtain weather where w: "env_get_weather_data env city = Inr weather"
      by (elim conjE exE)
    from h have all: "\<forall>c \<in> set crops. \<exists>ma. env_get_market_analysis env state district c = Inr ma"
      by (elim conjE)
    from h have some: "\<exists>c \<in> set crops. env_get_market_analysis env state district c \<noteq> Inr []"
      by (elim conjE)
    from analyze_crops_raises [OF all some]
    have "analyze_crops env sk self weather state district farm_size soil_type crops =
        Inl (AttributeError ''combine_features'')" .
    with w show "get_comprehensive_prediction env sk self city state district crops farm_size
        soil_type = Inl (AttributeError ''combine_features'')"
      by (simp add: get_comprehensive_prediction_def)
  qed
qed

lemma sample_market:
  "env_get_market_analysis sample_environment s d ''rice'' = Inr [(''current_price'', 2500)]"
  "env_get_market_analysis sample_environment s d ''wheat'' = Inr [(''current_price'', 5000)]"
  "env_get_market_analysis sample_environment s d ''maize'' = Inr []"
  "env_get_weather_data sample_environment c = Inr []"
  by (simp_all add: sample_environment_def)

theorem get_comprehensive_prediction_never_ranks_witness:
  "env_get_weather_data sample_environment ''Pune'' = Inr [] \<and>
   env_get_market_analysis sample_environment ''Maharashtra'' ''Pune'' ''rice'' =
     Inr [(''current_price'', 2500)] \<and>
   env_get_market_analysis sample_environment ''Maharashtra'' ''Pune'' ''wheat'' =
     Inr [(''current_price'', 5000)] \<and>
   env_get_market_analysis sample_environment ''Maharashtra'' ''Pune'' ''maize'' = Inr [] \<and>
   get_comprehensive_prediction sample_environment constant_sklearn
     (CropPredictionModel_init constant_sklearn) ''Pune'' ''Maharashtra'' ''Pune''
     [''rice'', ''wheat'', ''maize''] 1 ''loamy'' = Inl (AttributeError ''combine_features'') \<and>
   get_comprehensive_prediction sample_environment constant_sklearn
     (CropPredictionModel_init constant_sklearn) ''Pune'' ''Maharashtra'' ''Pune''
     [''maize''] 1 ''loamy'' = Inr ([], [])"
  using get_comprehensive_prediction_never_ranks [of sample_environment constant_sklearn
          "CropPredictionModel_init constant_sklearn" "''Pune''" "''Maharashtra''" "''Pune''"
          "[''rice'', ''wheat'', ''maize'']" 1 "''loamy''"]
        get_comprehensive_prediction_never_ranks [of sample_environment constant_sklearn
          "CropPredictionModel_init constant_sklearn" "''Pune''" "''Maharashtra''" "''Pune''"
          "[''maize'']" 1 "''loamy''"]
  by (simp add: sample_market get_comprehensive_prediction_def sort_by_profit_Nil)

end
